theory Spec2Isabelle
  imports Main "HOL-Library.Code_Target_Numeral"
begin

section \<open>JavaScript values, as far as the client reads them\<close>

text \<open>
  The client of \<^verbatim>\<open>kandinsky_image_generator.js\<close> receives parsed JSON from the service
  and options from its caller. Both are JavaScript values. The model has the primitive
  values and plain data objects; numbers are the integers, each standing for the
  nearest double, and \<open>NaN\<close>; strings are lists of characters; an object is the list
  of its own properties in enumeration order, each key bound once (a second binding of
  a key is never read). Functions, symbols and
  properties inherited from a prototype are not part of the model: the keys this program
  reads (\<open>status\<close>, \<open>result\<close>, \<open>files\<close>, \<open>errorDescription\<close>, \<open>pipeline_status\<close>,
  \<open>uuid\<close>, \<open>id\<close>, \<open>length\<close>, \<open>0\<close>) are inherited by no plain object or array.
\<close>

datatype jsval =
    JUndefined
  | JNull
  | JBool bool
  | JNum int
  | JNaN
  | JStr string
  | JArr "jsval list"
  | JObj "(string \<times> jsval) list"

text \<open>
  What is thrown. The program only ever reads \<open>error.message\<close> of a caught value and
  throws \<open>new Error(...)\<close> itself; the platform throws \<open>TypeError\<close> (reading a property
  of \<open>null\<close> or \<open>undefined\<close>, a failed \<open>fetch\<close>) and \<open>SyntaxError\<close> (a body that is
  not JSON).
\<close>

datatype js_error = Error string | TypeError string | SyntaxError string

fun message :: "js_error \<Rightarrow> string" where
  "message (Error m) = m"
| "message (TypeError m) = m"
| "message (SyntaxError m) = m"

text \<open>Truthiness, as tested by \<open>if (v)\<close>, \<open>!v\<close> and \<open>v || d\<close>.\<close>

fun truthy :: "jsval \<Rightarrow> bool" where
  "truthy JUndefined = False"
| "truthy JNull = False"
| "truthy (JBool b) = b"
| "truthy (JNum n) = (n \<noteq> 0)"
| "truthy JNaN = False"
| "truthy (JStr s) = (s \<noteq> [])"
| "truthy (JArr xs) = True"
| "truthy (JObj kvs) = True"

text \<open>The decimal numeral of a natural number.\<close>

fun digits :: "nat \<Rightarrow> string" where
  "digits n =
     (if n < 10 then [''0123456789'' ! n]
      else digits (n div 10) @ [''0123456789'' ! (n mod 10)])"

declare digits.simps [simp del]

text \<open>
  A JavaScript number is a double. \<open>to_double m\<close> is the double nearest to the natural
  number \<open>m\<close>, ties going to the even significand of 53 bits; from \<open>2 ^ 1024\<close> on the
  result stands for \<open>Infinity\<close>. A number \<open>JNum i\<close> of the model denotes the double
  nearest to \<open>i\<close>, which is what \<open>JSON.parse\<close> makes of the numeral \<open>i\<close>.
\<close>

fun bit_length :: "nat \<Rightarrow> nat" where
  "bit_length n = (if n = 0 then 0 else Suc (bit_length (n div 2)))"

declare bit_length.simps [simp del]

definition to_double :: "nat \<Rightarrow> nat" where
  "to_double m =
     (if m < 2 ^ 53 then m
      else let e = bit_length m - 53;
               q = m div 2 ^ e;
               r = m mod 2 ^ e
           in (if 2 ^ e < 2 * r \<or> (2 * r = 2 ^ e \<and> odd q) then q + 1 else q) * 2 ^ e)"

definition is_infinite :: "int \<Rightarrow> bool" where
  "is_infinite i = (2 ^ 1024 \<le> to_double (nat \<bar>i\<bar>))"

text \<open>
  The string of a number (\<open>Number::toString\<close>). For the double \<open>x\<close> it is the numeral
  with the fewest significant digits among those that denote \<open>x\<close>, and of these the one
  nearest to \<open>x\<close>. \<open>shortest x j\<close> looks for it among the multiples of \<open>10 ^ j\<close> on
  either side of \<open>x\<close>, from the coarsest \<open>j\<close> down. Below \<open>10 ^ 21\<close> the numeral is
  printed in full, from there on with an exponent.
\<close>

fun shortest :: "nat \<Rightarrow> nat \<Rightarrow> nat" where
  "shortest x 0 = x"
| "shortest x (Suc j) =
     (let p = 10 ^ Suc j;
          lo = (x div p) * p;
          hi = lo + p;
          lo_ok = (0 < lo \<and> to_double lo = x);
          hi_ok = (to_double hi = x)
      in if lo_ok \<and> hi_ok then
           (if x - lo < hi - x \<or> (x - lo = hi - x \<and> even (x div p)) then lo else hi)
         else if lo_ok then lo
         else if hi_ok then hi
         else shortest x j)"

definition exponential :: "nat \<Rightarrow> string" where
  "exponential y =
     (let ds = digits y;
          s = rev (dropWhile (\<lambda>d. d = CHR ''0'') (rev ds))
      in (if length s = 1 then s else hd s # ''.'' @ tl s) @ ''e+'' @ digits (length ds - 1))"

definition number_to_string :: "int \<Rightarrow> string" where
  "number_to_string i =
     (let x = to_double (nat \<bar>i\<bar>);
          sign = (if i < 0 then ''-'' else '''')
      in if x = 0 then ''0''
         else if 2 ^ 1024 \<le> x then sign @ ''Infinity''
         else let y = shortest x (length (digits x) - 1)
              in sign @ (if y < 10 ^ 21 then digits y else exponential y))"

text \<open>
  Reading a property, \<open>v.k\<close> or \<open>v[i]\<close> (the index \<open>i\<close> is the key \<open>digits i\<close>).
  On \<open>undefined\<close> and \<open>null\<close> the read throws a \<open>TypeError\<close> (the message is V8's
  wording); a missing property reads as \<open>undefined\<close>.
\<close>

definition cannot_read :: "string \<Rightarrow> string \<Rightarrow> js_error" where
  "cannot_read what k =
     TypeError (''Cannot read properties of '' @ what @ '' (reading '' @ [CHR 0x27] @ k @ [CHR 0x27] @ '')'')"

definition index_of_key :: "nat \<Rightarrow> string \<Rightarrow> nat option" where
  "index_of_key n k = find (\<lambda>i. digits i = k) [0..<n]"

fun get :: "jsval \<Rightarrow> string \<Rightarrow> js_error + jsval" where
  "get JUndefined k = Inl (cannot_read ''undefined'' k)"
| "get JNull k = Inl (cannot_read ''null'' k)"
| "get (JArr xs) k =
     Inr (if k = ''length'' then JNum (int (length xs))
          else case index_of_key (length xs) k of Some i \<Rightarrow> xs ! i | None \<Rightarrow> JUndefined)"
| "get (JStr s) k =
     Inr (if k = ''length'' then JNum (int (length s))
          else case index_of_key (length s) k of Some i \<Rightarrow> JStr [s ! i] | None \<Rightarrow> JUndefined)"
| "get (JObj kvs) k = Inr (case map_of kvs k of Some v \<Rightarrow> v | None \<Rightarrow> JUndefined)"
| "get v k = Inr JUndefined"

text \<open>
  The string a value becomes inside a template literal. An array joins its elements with
  commas, \<open>null\<close> and \<open>undefined\<close> elements giving the empty string; a plain object gives
  \<open>[object Object]\<close>, unless an own property \<open>toString\<close> (never callable in a data
  object) hides the inherited method, in which case the conversion throws. The elements
  of an array are converted in order, and the first one that throws ends the conversion.
\<close>

fun join :: "string list \<Rightarrow> string" where
  "join [] = []"
| "join [s] = s"
| "join (s # t # ts) = s @ '','' @ join (t # ts)"

fun converted :: "(js_error + string) list \<Rightarrow> js_error + string list" where
  "converted [] = Inr []"
| "converted (r # rs) =
     (case r of
        Inl e \<Rightarrow> Inl e
      | Inr s \<Rightarrow> (case converted rs of Inl e \<Rightarrow> Inl e | Inr ss \<Rightarrow> Inr (s # ss)))"

fun ToString :: "jsval \<Rightarrow> js_error + string" where
  "ToString JUndefined = Inr ''undefined''"
| "ToString JNull = Inr ''null''"
| "ToString (JBool b) = Inr (if b then ''true'' else ''false'')"
| "ToString (JNum i) = Inr (number_to_string i)"
| "ToString JNaN = Inr ''NaN''"
| "ToString (JStr s) = Inr s"
| "ToString (JArr xs) =
     (case converted (map (\<lambda>x. if x = JUndefined \<or> x = JNull then Inr [] else ToString x) xs) of
        Inl e \<Rightarrow> Inl e
      | Inr ss \<Rightarrow> Inr (join ss))"
| "ToString (JObj kvs) =
     (if ''toString'' \<in> fst ` set kvs
      then Inl (TypeError ''Cannot convert object to primitive value'')
      else Inr ''[object Object]'')"

text \<open>
  \<open>JSON.stringify\<close>, at the level of the document its text denotes: a property whose
  value is \<open>undefined\<close> is left out; an \<open>undefined\<close> array element, \<open>NaN\<close> and an
  infinite number become \<open>null\<close>.
\<close>

fun JSON_stringify :: "jsval \<Rightarrow> jsval" where
  "JSON_stringify JNaN = JNull"
| "JSON_stringify (JNum i) = (if is_infinite i then JNull else JNum i)"
| "JSON_stringify (JArr xs) =
     JArr (map (\<lambda>x. if x = JUndefined then JNull else JSON_stringify x) xs)"
| "JSON_stringify (JObj kvs) =
     JObj (map (\<lambda>kv. (fst kv, JSON_stringify (snd kv)))
             (filter (\<lambda>kv. snd kv \<noteq> JUndefined) kvs))"
| "JSON_stringify v = v"

text \<open>The keys of a JSON document that is an object.\<close>

fun field_names :: "jsval \<Rightarrow> string set" where
  "field_names (JObj kvs) = fst ` set kvs"
| "field_names v = {}"

section \<open>The transport\<close>

text \<open>
  \<open>fetch\<close> is the program's only way out. A request is what the program passes to it;
  the promise it returns rejects, or resolves to a response with the three fields the
  program reads and the outcome of \<open>response.json()\<close>.
\<close>

datatype form_value = Text string | Blob jsval string

record request =
  url :: string
  "method" :: string
  headers :: "(string \<times> string) list"
  body :: "(string \<times> form_value) list option"

record response =
  ok :: bool
  status :: nat
  statusText :: string
  json :: "js_error + jsval"

datatype fetch_result = Rejects js_error | Resolves response

section \<open>class KandinskyAPI\<close>

record client =
  URL :: string
  AUTH_HEADERS :: "(string \<times> string) list"

text \<open>The constructor; \<open>None\<close> for the third argument takes the default endpoint.\<close>

definition KandinskyAPI :: "string \<Rightarrow> string \<Rightarrow> string option \<Rightarrow> client" where
  "KandinskyAPI apiKey secretKey endpoint =
     \<lparr> URL = (case endpoint of None \<Rightarrow> ''https://api-key.fusionbrain.ai/'' | Some u \<Rightarrow> u),
       AUTH_HEADERS = [(''X-Key'', ''Key '' @ apiKey), (''X-Secret'', ''Secret '' @ secretKey)] \<rparr>"

subsection \<open>getPipeline\<close>

definition getPipeline_request :: "client \<Rightarrow> request" where
  "getPipeline_request c =
     \<lparr> url = URL c @ ''key/api/v1/pipelines'', method = ''GET'',
       headers = AUTH_HEADERS c, body = None \<rparr>"

text \<open>The body of the \<open>try\<close> block: \<open>Inl\<close> is what it throws, \<open>Inr\<close> what it returns.\<close>

definition getPipeline_try :: "client \<Rightarrow> (request \<Rightarrow> fetch_result) \<Rightarrow> js_error + jsval" where
  "getPipeline_try c fetch =
     (case fetch (getPipeline_request c) of
        Rejects e \<Rightarrow> Inl e
      | Resolves response \<Rightarrow>
          if \<not> ok response then
            Inl (Error (''Failed to get pipeline: '' @ digits (status response) @ '' ''
                          @ statusText response))
          else
            (case json response of
               Inl e \<Rightarrow> Inl e
             | Inr data \<Rightarrow>
                 if \<not> truthy data \<or> get data ''length'' = Inr (JNum 0) then
                   Inl (Error ''No pipelines available'')
                 else
                   (case get data ''0'' of
                      Inl e \<Rightarrow> Inl e
                    | Inr first \<Rightarrow> get first ''id'')))"

text \<open>The \<open>catch\<close> clause wraps whatever the block threw.\<close>

definition getPipeline :: "client \<Rightarrow> (request \<Rightarrow> fetch_result) \<Rightarrow> js_error + jsval" where
  "getPipeline c fetch =
     (case getPipeline_try c fetch of
        Inl error \<Rightarrow> Inl (Error (''Failed to get pipeline ID: '' @ message error))
      | Inr pipelineId \<Rightarrow> Inr pipelineId)"

subsection \<open>generate\<close>

text \<open>
  The options object, destructured with defaults: a property that is missing reads as
  \<open>undefined\<close>, and \<open>undefined\<close> is replaced by the default.
\<close>

record generate_options =
  width :: jsval
  height :: jsval
  numImages :: jsval
  style :: jsval
  negativePrompt :: jsval

definition no_generate_options :: generate_options where
  "no_generate_options =
     \<lparr> width = JUndefined, height = JUndefined, numImages = JUndefined,
       style = JUndefined, negativePrompt = JUndefined \<rparr>"

definition or_default :: "jsval \<Rightarrow> jsval \<Rightarrow> jsval" where
  "or_default v d = (if v = JUndefined then d else v)"

text \<open>The object \<open>params\<close> after the two conditional assignments.\<close>

definition generate_params :: "string \<Rightarrow> generate_options \<Rightarrow> (string \<times> jsval) list" where
  "generate_params prompt options =
     (let width' = or_default (width options) (JNum 1024);
          height' = or_default (height options) (JNum 576);
          numImages' = or_default (numImages options) (JNum 1);
          style' = or_default (style options) JNull;
          negativePrompt' = or_default (negativePrompt options) JNull;
          params = [(''type'', JStr ''GENERATE''),
                    (''numImages'', numImages'),
                    (''width'', width'),
                    (''height'', height'),
                    (''generateParams'', JObj [(''query'', JStr prompt)])];
          params1 = (if truthy style' then params @ [(''style'', style')] else params);
          params2 = (if truthy negativePrompt'
                     then params1 @ [(''negativePromptDecoder'', negativePrompt')]
                     else params1)
      in params2)"

definition generate_request :: "client \<Rightarrow> string \<Rightarrow> string \<Rightarrow> generate_options \<Rightarrow> request" where
  "generate_request c prompt pipelineId options =
     \<lparr> url = URL c @ ''key/api/v1/pipeline/run'', method = ''POST'',
       headers = AUTH_HEADERS c,
       body = Some [(''pipeline_id'', Text pipelineId),
                    (''params'', Blob (JSON_stringify (JObj (generate_params prompt options)))
                                      ''application/json'')] \<rparr>"

text \<open>The JSON document that travels as the \<open>params\<close> part of a request.\<close>

definition payload :: "request \<Rightarrow> jsval" where
  "payload r =
     (case body r of
        None \<Rightarrow> JUndefined
      | Some parts \<Rightarrow>
          (case map_of parts ''params'' of Some (Blob doc mime) \<Rightarrow> doc | _ \<Rightarrow> JUndefined))"

definition generate_try ::
  "client \<Rightarrow> string \<Rightarrow> string \<Rightarrow> generate_options \<Rightarrow> (request \<Rightarrow> fetch_result) \<Rightarrow> js_error + jsval"
where
  "generate_try c prompt pipelineId options fetch =
     (case fetch (generate_request c prompt pipelineId options) of
        Rejects e \<Rightarrow> Inl e
      | Resolves response \<Rightarrow>
          if \<not> ok response then
            Inl (Error (''Failed to generate image: '' @ digits (status response) @ '' ''
                          @ statusText response))
          else
            (case json response of
               Inl e \<Rightarrow> Inl e
             | Inr data \<Rightarrow>
                 (case get data ''pipeline_status'' of
                    Inl e \<Rightarrow> Inl e
                  | Inr pipeline_status \<Rightarrow>
                      if truthy pipeline_status then
                        (case ToString pipeline_status of
                           Inl e \<Rightarrow> Inl e
                         | Inr text \<Rightarrow> Inl (Error (''Service unavailable: '' @ text)))
                      else get data ''uuid'')))"

definition generate ::
  "client \<Rightarrow> string \<Rightarrow> string \<Rightarrow> generate_options \<Rightarrow> (request \<Rightarrow> fetch_result) \<Rightarrow> js_error + jsval"
where
  "generate c prompt pipelineId options fetch =
     (case generate_try c prompt pipelineId options fetch of
        Inl error \<Rightarrow> Inl (Error (''Failed to generate image: '' @ message error))
      | Inr uuid \<Rightarrow> Inr uuid)"

subsection \<open>checkGeneration\<close>

text \<open>
  The options: \<open>None\<close> is a missing property. \<open>attempts\<close> and \<open>delay\<close> are integers; the
  callback receives the progress object and returns, or throws what it returns here.
\<close>

record check_options =
  attempts :: "int option"
  delay :: "int option"
  onProgress :: "(jsval \<Rightarrow> js_error option) option"

definition no_check_options :: check_options where
  "no_check_options = \<lparr> attempts = None, delay = None, onProgress = None \<rparr>"

definition attempts_of :: "check_options \<Rightarrow> int" where
  "attempts_of options = (case attempts options of None \<Rightarrow> 20 | Some n \<Rightarrow> n)"

definition delay_of :: "check_options \<Rightarrow> int" where
  "delay_of options = (case delay options of None \<Rightarrow> 5000 | Some d \<Rightarrow> d)"

text \<open>
  The state of the loop: the counter, and what the loop has done so far, in order: the
  status requests passed to \<open>fetch\<close>, the objects passed to \<open>onProgress\<close>, the delays
  passed to \<open>setTimeout\<close> and awaited.
\<close>

record poll_state =
  attemptsLeft :: int
  fetched :: "request list"
  reported :: "jsval list"
  slept :: "int list"

text \<open>How the body of the loop completes: it falls through, returns or throws.\<close>

datatype completion = Normal | Return jsval | Throw js_error

definition checkGeneration_request :: "client \<Rightarrow> string \<Rightarrow> request" where
  "checkGeneration_request c requestId =
     \<lparr> url = URL c @ ''key/api/v1/pipeline/status/'' @ requestId, method = ''GET'',
       headers = AUTH_HEADERS c, body = None \<rparr>"

text \<open>The object passed to \<open>onProgress\<close>.\<close>

definition progress_event :: "jsval \<Rightarrow> int \<Rightarrow> int \<Rightarrow> jsval" where
  "progress_event st left attempts' =
     JObj [(''status'', st), (''attemptsLeft'', JNum left), (''totalAttempts'', JNum attempts')]"

text \<open>The last two statements of the \<open>try\<close> block.\<close>

definition decrement_and_wait :: "check_options \<Rightarrow> poll_state \<Rightarrow> poll_state" where
  "decrement_and_wait options s =
     s\<lparr> attemptsLeft := attemptsLeft s - 1, slept := slept s @ [delay_of options] \<rparr>"

text \<open>
  One pass through the \<open>try\<close> block. \<open>fetch k\<close> answers the request made after \<open>k\<close>
  earlier ones.
\<close>

definition checkGeneration_try ::
  "client \<Rightarrow> string \<Rightarrow> check_options \<Rightarrow> (nat \<Rightarrow> request \<Rightarrow> fetch_result) \<Rightarrow> poll_state
     \<Rightarrow> completion \<times> poll_state"
where
  "checkGeneration_try c requestId options fetch s =
     (let req = checkGeneration_request c requestId;
          s1 = s\<lparr> fetched := fetched s @ [req] \<rparr>
      in case fetch (length (fetched s)) req of
           Rejects e \<Rightarrow> (Throw e, s1)
         | Resolves response \<Rightarrow>
             if \<not> ok response then
               (Throw (Error (''Failed to check generation status: ''
                               @ digits (status response) @ '' '' @ statusText response)), s1)
             else
               (case json response of
                  Inl e \<Rightarrow> (Throw e, s1)
                | Inr data \<Rightarrow>
                    (case get data ''status'' of
                       Inl e \<Rightarrow> (Throw e, s1)
                     | Inr st \<Rightarrow>
                         if st = JStr ''DONE'' then
                           (case get data ''result'' of
                              Inl e \<Rightarrow> (Throw e, s1)
                            | Inr result \<Rightarrow>
                                (case get result ''files'' of
                                   Inl e \<Rightarrow> (Throw e, s1)
                                 | Inr files \<Rightarrow> (Return files, s1)))
                         else if st = JStr ''FAIL'' then
                           (case get data ''errorDescription'' of
                              Inl e \<Rightarrow> (Throw e, s1)
                            | Inr errorDescription \<Rightarrow>
                                (case ToString (if truthy errorDescription then errorDescription
                                                else JStr ''Unknown error'') of
                                   Inl e \<Rightarrow> (Throw e, s1)
                                 | Inr errorMsg \<Rightarrow>
                                     (Throw (Error (''Generation failed: '' @ errorMsg)), s1)))
                         else
                           (case onProgress options of
                              None \<Rightarrow> (Normal, decrement_and_wait options s1)
                            | Some callback \<Rightarrow>
                                (let event = progress_event st (attemptsLeft s1)
                                                                (attempts_of options);
                                     s2 = s1\<lparr> reported := reported s1 @ [event] \<rparr>
                                 in case callback event of
                                      Some e \<Rightarrow> (Throw e, s2)
                                    | None \<Rightarrow> (Normal, decrement_and_wait options s2))))))"

lemma checkGeneration_try_Normal:
  "checkGeneration_try c requestId options fetch s = (Normal, s')
     \<Longrightarrow> attemptsLeft s' = attemptsLeft s - 1"
  by (auto simp: checkGeneration_try_def decrement_and_wait_def Let_def
           split: fetch_result.splits if_splits sum.splits option.splits)

text \<open>
  The \<open>while\<close> loop with its \<open>catch\<close> clause, and the \<open>throw\<close> that follows the loop.
\<close>

function checkGeneration_while ::
  "client \<Rightarrow> string \<Rightarrow> check_options \<Rightarrow> (nat \<Rightarrow> request \<Rightarrow> fetch_result) \<Rightarrow> poll_state
     \<Rightarrow> (js_error + jsval) \<times> poll_state"
where
  "checkGeneration_while c requestId options fetch s =
     (if attemptsLeft s > 0 then
        (case checkGeneration_try c requestId options fetch s of
           (Return files, s') \<Rightarrow> (Inr files, s')
         | (Throw error, s') \<Rightarrow>
             (Inl (Error (''Error checking generation: '' @ message error)), s')
         | (Normal, s') \<Rightarrow> checkGeneration_while c requestId options fetch s')
      else (Inl (Error ''Generation timed out''), s))"
  by pat_completeness auto
termination
  by (relation "measure (\<lambda>(c, requestId, options, fetch, s). nat (attemptsLeft s))")
     (auto dest: checkGeneration_try_Normal [OF sym])

declare checkGeneration_while.simps [simp del]

definition checkGeneration ::
  "client \<Rightarrow> string \<Rightarrow> check_options \<Rightarrow> (nat \<Rightarrow> request \<Rightarrow> fetch_result)
     \<Rightarrow> (js_error + jsval) \<times> poll_state"
where
  "checkGeneration c requestId options fetch =
     checkGeneration_while c requestId options fetch
       \<lparr> attemptsLeft = attempts_of options, fetched = [], reported = [], slept = [] \<rparr>"

subsection \<open>saveImages\<close>

record save_options =
  prefix :: "string option"

definition startsWith :: "string \<Rightarrow> string \<Rightarrow> bool" where
  "startsWith s p = (take (length p) s = p)"

text \<open>The link that is created, clicked and removed for one image.\<close>

record link =
  href :: string
  download :: string

text \<open>
  The callback of \<open>forEach\<close>, applied to the filenames pushed and the links clicked so
  far, and the whole method: it returns the filenames; the links are its effect.
\<close>

definition saveImages_each ::
  "string \<Rightarrow> string list \<times> link list \<Rightarrow> nat \<times> string \<Rightarrow> string list \<times> link list"
where
  "saveImages_each prefix' acc item =
     (let i = fst item; imgData = snd item;
          processedData = (if \<not> startsWith imgData ''data:image''
                           then ''data:image/png;base64,'' @ imgData else imgData);
          filename = prefix' @ ''_'' @ digits i @ ''.png''
      in (fst acc @ [filename], snd acc @ [\<lparr> href = processedData, download = filename \<rparr>]))"

definition saveImages :: "string list \<Rightarrow> save_options \<Rightarrow> string list \<times> link list" where
  "saveImages base64Images options =
     (let prefix' = (case prefix options of None \<Rightarrow> ''kandinsky'' | Some p \<Rightarrow> p)
      in foldl (saveImages_each prefix') ([], []) (enumerate 0 base64Images))"

section \<open>Vocabulary for the statements\<close>

text \<open>
  What a status poll observes: the parsed body of a successful response, if the request
  got one.
\<close>

definition observed :: "fetch_result \<Rightarrow> jsval option" where
  "observed r =
     (case r of
        Rejects e \<Rightarrow> None
      | Resolves response \<Rightarrow>
          if ok response then (case json response of Inl e \<Rightarrow> None | Inr data \<Rightarrow> Some data)
          else None)"




text \<open>A successful response with the given body, for the examples.\<close>

definition ok_json :: "jsval \<Rightarrow> fetch_result" where
  "ok_json data = Resolves \<lparr> ok = True, status = 200, statusText = ''OK'', json = Inr data \<rparr>"

section \<open>Reading properties\<close>

lemma digits_0: "digits 0 = ''0''"
  by (simp add: digits.simps)

lemma index_of_key_0: "0 < n \<Longrightarrow> index_of_key n ''0'' = Some 0"
  by (cases n) (simp_all add: index_of_key_def upt_rec digits_0)

section \<open>Printing numbers\<close>

lemma shortest_numeral:
  "shortest x (numeral k) =
     (let p = 10 ^ numeral k;
          lo = (x div p) * p;
          hi = lo + p;
          lo_ok = (0 < lo \<and> to_double lo = x);
          hi_ok = (to_double hi = x)
      in if lo_ok \<and> hi_ok then
           (if x - lo < hi - x \<or> (x - lo = hi - x \<and> even (x div p)) then lo else hi)
         else if lo_ok then lo
         else if hi_ok then hi
         else shortest x (pred_numeral k))"
  by (simp add: numeral_eq_Suc)

text \<open>
  Small integers print as they are; \<open>2 ^ 60\<close>, a double, prints with the seventeen
  digits that tell it from its neighbours.
\<close>

lemma number_to_string_small:
  "number_to_string 20 = ''20''" "number_to_string (- 42) = ''-42''"
  by (simp_all add: number_to_string_def to_double_def digits.simps Let_def)

lemma number_to_string_2_60:
  "number_to_string 1152921504606846976 = ''1152921504606847000''"
  by (simp add: number_to_string_def to_double_def digits.simps bit_length.simps Let_def
        shortest_numeral)

section \<open>The submitted job specification\<close>

lemma field_names_JSON_stringify:
  "\<forall>kv \<in> set kvs. snd kv \<noteq> JUndefined \<Longrightarrow>
     field_names (JSON_stringify (JObj kvs)) = set (map fst kvs)"
  by (simp add: image_image)

lemma truthy_or_default: "truthy (or_default v JNull) = truthy v"
  by (simp add: or_default_def)

lemma generate_params_names:
  "map fst (generate_params prompt options)
     = [''type'', ''numImages'', ''width'', ''height'', ''generateParams'']
       @ (if truthy (style options) then [''style''] else [])
       @ (if truthy (negativePrompt options) then [''negativePromptDecoder''] else [])"
  by (simp add: generate_params_def Let_def truthy_or_default)

lemma truthy_defined: "truthy v \<Longrightarrow> v \<noteq> JUndefined"
  by (cases v) simp_all

lemma generate_params_defined:
  assumes "kv \<in> set (generate_params prompt options)"
  shows "snd kv \<noteq> JUndefined"
proof -
  let ?base = "[(''type'', JStr ''GENERATE''),
                (''numImages'', or_default (numImages options) (JNum 1)),
                (''width'', or_default (width options) (JNum 1024)),
                (''height'', or_default (height options) (JNum 576)),
                (''generateParams'', JObj [(''query'', JStr prompt)])]"
  let ?style = "or_default (style options) JNull"
  let ?negative = "or_default (negativePrompt options) JNull"
  have params: "generate_params prompt options
      = ?base @ (if truthy ?style then [(''style'', ?style)] else [])
              @ (if truthy ?negative then [(''negativePromptDecoder'', ?negative)] else [])"
    by (simp add: generate_params_def Let_def)
  have "snd ` set ?base
      = {JStr ''GENERATE'', or_default (numImages options) (JNum 1),
         or_default (width options) (JNum 1024), or_default (height options) (JNum 576),
         JObj [(''query'', JStr prompt)]}"
    by simp
  then have base: "JUndefined \<notin> snd ` set ?base"
    by (simp add: or_default_def)
  have style: "JUndefined \<notin> snd ` set (if truthy ?style then [(''style'', ?style)] else [])"
    using truthy_defined [of ?style] by auto
  have negative: "JUndefined \<notin> snd ` set (if truthy ?negative
                    then [(''negativePromptDecoder'', ?negative)] else [])"
    using truthy_defined [of ?negative] by auto
  have "JUndefined \<notin> snd ` set (generate_params prompt options)"
    unfolding params set_append image_Un using base style negative by blast
  with assms show ?thesis
    by (metis imageI)
qed

lemma payload_generate_request:
  "payload (generate_request c prompt pipelineId options)
     = JSON_stringify (JObj (generate_params prompt options))"
  by (simp add: payload_def generate_request_def)

lemma field_names_payload:
  "field_names (payload (generate_request c prompt pipelineId options))
     = set ([''type'', ''numImages'', ''width'', ''height'', ''generateParams'']
       @ (if truthy (style options) then [''style''] else [])
       @ (if truthy (negativePrompt options) then [''negativePromptDecoder''] else []))"
proof -
  have "\<forall>kv \<in> set (generate_params prompt options). snd kv \<noteq> JUndefined"
    using generate_params_defined by blast
  then show ?thesis
    unfolding payload_generate_request
    by (simp only: field_names_JSON_stringify generate_params_names)
qed

lemma generate_params_falsy_style:
  "\<not> truthy (style options) \<Longrightarrow>
     generate_params prompt (options\<lparr> style := JUndefined \<rparr>) = generate_params prompt options"
  by (simp add: generate_params_def Let_def truthy_or_default)

lemma generate_params_falsy_negativePrompt:
  "\<not> truthy (negativePrompt options) \<Longrightarrow>
     generate_params prompt (options\<lparr> negativePrompt := JUndefined \<rparr>)
       = generate_params prompt options"
  by (simp add: generate_params_def Let_def truthy_or_default)

lemma generate_request_cong:
  "generate_params prompt options' = generate_params prompt options \<Longrightarrow>
     generate_request c prompt pipelineId options' = generate_request c prompt pipelineId options"
  by (simp add: generate_request_def)

section \<open>One pass of the polling loop\<close>



lemma while_Throw:
  "0 < attemptsLeft s \<Longrightarrow> checkGeneration_try c requestId options fetch s = (Throw error, s')
     \<Longrightarrow> checkGeneration_while c requestId options fetch s
         = (Inl (Error (''Error checking generation: '' @ message error)), s')"
  by (subst checkGeneration_while.simps) simp


lemma observed_Some:
  "observed r = Some data \<Longrightarrow>
     \<exists>response. r = Resolves response \<and> ok response \<and> json response = Inr data"
  by (cases r) (auto simp: observed_def split: if_splits sum.splits)



lemma try_FAIL:
  assumes "observed (fetch (length (fetched s)) (checkGeneration_request c requestId)) = Some data"
    and "get data ''status'' = Inr (JStr ''FAIL'')"
    and "get data ''errorDescription'' = Inr errorDescription"
  shows "checkGeneration_try c requestId options fetch s
     = (Throw (case ToString (if truthy errorDescription then errorDescription
                              else JStr ''Unknown error'') of
                 Inl e \<Rightarrow> e
               | Inr errorMsg \<Rightarrow> Error (''Generation failed: '' @ errorMsg)),
        s\<lparr> fetched := fetched s @ [checkGeneration_request c requestId] \<rparr>)"
proof -
  from observed_Some [OF assms(1)] obtain response where
    "fetch (length (fetched s)) (checkGeneration_request c requestId) = Resolves response"
    "ok response" "json response = Inr data"
    by blast
  with assms(2,3) show ?thesis
    by (simp add: checkGeneration_try_def Let_def split: sum.splits)
qed






section \<open>Polling\<close>



text \<open>
  C2, as the code has it. When the first poll observes \<open>FAIL\<close>, \<open>checkGeneration\<close> throws
  at once: one status request, no delay, no callback, the counter untouched. The message
  is \<open>Generation failed:\<close> (behind the prefix of the \<open>catch\<close> clause) followed by the
  text of \<open>errorDescription\<close> when that value is truthy, and by \<open>Unknown error\<close> when
  it is falsy: missing, \<open>null\<close>, or the empty string.
\<close>

theorem checkGeneration_fail_first:
  assumes "1 \<le> attempts_of options"
    and "observed (fetch 0 (checkGeneration_request c requestId)) = Some data"
    and "get data ''status'' = Inr (JStr ''FAIL'')"
    and "get data ''errorDescription'' = Inr errorDescription"
  shows "snd (checkGeneration c requestId options fetch)
           = \<lparr> attemptsLeft = attempts_of options,
               fetched = [checkGeneration_request c requestId], reported = [], slept = [] \<rparr>
       \<and> (\<forall>text. truthy errorDescription \<and> ToString errorDescription = Inr text \<longrightarrow>
            fst (checkGeneration c requestId options fetch)
              = Inl (Error (''Error checking generation: Generation failed: '' @ text)))
       \<and> (\<not> truthy errorDescription \<longrightarrow>
            fst (checkGeneration c requestId options fetch)
              = Inl (Error ''Error checking generation: Generation failed: Unknown error''))"
proof -
  let ?s0 = "\<lparr> attemptsLeft = attempts_of options, fetched = [], reported = [], slept = [] \<rparr>"
  let ?thrown = "case ToString (if truthy errorDescription then errorDescription
                                else JStr ''Unknown error'') of
                   Inl e \<Rightarrow> e
                 | Inr errorMsg \<Rightarrow> Error (''Generation failed: '' @ errorMsg)"
  have "checkGeneration_try c requestId options fetch ?s0
          = (Throw ?thrown, ?s0\<lparr> fetched := fetched ?s0 @ [checkGeneration_request c requestId] \<rparr>)"
    using assms(2-4) by (intro try_FAIL) simp_all
  then have "checkGeneration c requestId options fetch
          = (Inl (Error (''Error checking generation: '' @ message ?thrown)),
             ?s0\<lparr> fetched := fetched ?s0 @ [checkGeneration_request c requestId] \<rparr>)"
    unfolding checkGeneration_def using assms(1) by (intro while_Throw) simp_all
  then show ?thesis
    by simp
qed

theorem checkGeneration_fail_first_witness:
  "checkGeneration (KandinskyAPI ''k'' ''s'' None) ''r1'' no_check_options
     (\<lambda>k r. ok_json (JObj [(''status'', JStr ''FAIL''), (''errorDescription'', JStr ''bad prompt'')]))
   = (Inl (Error ''Error checking generation: Generation failed: bad prompt''),
      \<lparr> attemptsLeft = 20,
        fetched = [checkGeneration_request (KandinskyAPI ''k'' ''s'' None) ''r1''],
        reported = [], slept = [] \<rparr>)
 \<and> fst (checkGeneration (KandinskyAPI ''k'' ''s'' None) ''r1'' no_check_options
          (\<lambda>k r. ok_json (JObj [(''status'', JStr ''FAIL'')])))
     = Inl (Error ''Error checking generation: Generation failed: Unknown error'')"
proof -
  let ?c = "KandinskyAPI ''k'' ''s'' None"
  have described: "checkGeneration ?c ''r1'' no_check_options
     (\<lambda>k r. ok_json (JObj [(''status'', JStr ''FAIL''), (''errorDescription'', JStr ''bad prompt'')]))
   = (Inl (Error ''Error checking generation: Generation failed: bad prompt''),
      \<lparr> attemptsLeft = 20, fetched = [checkGeneration_request ?c ''r1''],
        reported = [], slept = [] \<rparr>)"
    using checkGeneration_fail_first
      [where options = no_check_options and c = ?c and requestId = "''r1''"
         and fetch = "\<lambda>k r. ok_json (JObj [(''status'', JStr ''FAIL''),
                                          (''errorDescription'', JStr ''bad prompt'')])"
         and data = "JObj [(''status'', JStr ''FAIL''), (''errorDescription'', JStr ''bad prompt'')]"
         and errorDescription = "JStr ''bad prompt''"]
    by (simp add: attempts_of_def no_check_options_def observed_def ok_json_def prod_eq_iff)
  have plain: "fst (checkGeneration ?c ''r1'' no_check_options
          (\<lambda>k r. ok_json (JObj [(''status'', JStr ''FAIL'')])))
     = Inl (Error ''Error checking generation: Generation failed: Unknown error'')"
    using checkGeneration_fail_first
      [where options = no_check_options and c = ?c and requestId = "''r1''"
         and fetch = "\<lambda>k r. ok_json (JObj [(''status'', JStr ''FAIL'')])"
         and data = "JObj [(''status'', JStr ''FAIL'')]"
         and errorDescription = JUndefined]
    by (simp add: attempts_of_def no_check_options_def observed_def ok_json_def)
  from described plain show ?thesis
    by simp
qed

text \<open>
  C2 as stated fails: an \<open>errorDescription\<close> that is present but empty is not carried;
  the message is the generic one.
\<close>

theorem checkGeneration_fail_empty_description:
  "get (JObj [(''status'', JStr ''FAIL''), (''errorDescription'', JStr '''')]) ''errorDescription''
     = Inr (JStr '''')
 \<and> fst (checkGeneration (KandinskyAPI ''k'' ''s'' None) ''r1'' no_check_options
       (\<lambda>k r. ok_json (JObj [(''status'', JStr ''FAIL''), (''errorDescription'', JStr '''')])))
     = Inl (Error ''Error checking generation: Generation failed: Unknown error'')
 \<and> fst (checkGeneration (KandinskyAPI ''k'' ''s'' None) ''r1'' no_check_options
       (\<lambda>k r. ok_json (JObj [(''status'', JStr ''FAIL''), (''errorDescription'', JStr '''')])))
     \<noteq> Inl (Error (''Error checking generation: Generation failed: '' @ ''''))"
  by (simp add: checkGeneration_def checkGeneration_while.simps checkGeneration_try_def
        attempts_of_def no_check_options_def ok_json_def Let_def)





section \<open>Submission\<close>

text \<open>
  C5. When the \<open>style\<close> option is omitted, the JSON document submitted as \<open>params\<close> has no
  \<open>style\<close> field; when \<open>negativePrompt\<close> is omitted, it has no \<open>negativePromptDecoder\<close>
  field. The key is absent, not bound to \<open>null\<close>.
\<close>

theorem generate_omitted_absent:
  "(style options = JUndefined \<longrightarrow>
      ''style'' \<notin> field_names (payload (generate_request c prompt pipelineId options)))
 \<and> (negativePrompt options = JUndefined \<longrightarrow>
      ''negativePromptDecoder'' \<notin> field_names (payload (generate_request c prompt pipelineId options)))"
  by (simp add: field_names_payload)

theorem generate_omitted_absent_witness:
  "''style'' \<notin> field_names (payload (generate_request (KandinskyAPI ''k'' ''s'' None) ''a cat'' ''p-1''
       (no_generate_options\<lparr> negativePrompt := JStr ''dogs'' \<rparr>)))
 \<and> ''negativePromptDecoder'' \<notin> field_names (payload (generate_request (KandinskyAPI ''k'' ''s'' None) ''a cat'' ''p-1''
       (no_generate_options\<lparr> style := JStr ''ANIME'' \<rparr>)))"
  using generate_omitted_absent [of "no_generate_options\<lparr> negativePrompt := JStr ''dogs'' \<rparr>"
      "KandinskyAPI ''k'' ''s'' None" "''a cat''" "''p-1''"]
    generate_omitted_absent [of "no_generate_options\<lparr> style := JStr ''ANIME'' \<rparr>"
      "KandinskyAPI ''k'' ''s'' None" "''a cat''" "''p-1''"]
  by (simp add: no_generate_options_def)

text \<open>
  C6. When the body of the response to a submission parses to a value whose
  \<open>pipeline_status\<close> is truthy, \<open>generate\<close> returns no job handle: it throws an error
  with the submission prefix, and when the response was \<open>ok\<close> the message reports the
  service as unavailable with the text of that status.
\<close>

theorem generate_service_unavailable:
  assumes "fetch (generate_request c prompt pipelineId options) = Resolves response"
    and "json response = Inr data"
    and "get data ''pipeline_status'' = Inr pipeline_status"
    and "truthy pipeline_status"
  shows "(\<exists>m. generate c prompt pipelineId options fetch
               = Inl (Error (''Failed to generate image: '' @ m)))
       \<and> (\<forall>text. ok response \<and> ToString pipeline_status = Inr text \<longrightarrow>
            generate c prompt pipelineId options fetch
              = Inl (Error (''Failed to generate image: Service unavailable: '' @ text)))"
  using assms by (auto simp: generate_def generate_try_def split: sum.splits)

theorem generate_service_unavailable_witness:
  "generate (KandinskyAPI ''k'' ''s'' None) ''a cat'' ''p-1'' no_generate_options
     (\<lambda>r. ok_json (JObj [(''uuid'', JStr ''u-1''), (''pipeline_status'', JStr ''DISABLED_BY_QUEUE'')]))
   = Inl (Error ''Failed to generate image: Service unavailable: DISABLED_BY_QUEUE'')"
  using generate_service_unavailable
    [where fetch = "\<lambda>r. ok_json (JObj [(''uuid'', JStr ''u-1''), (''pipeline_status'', JStr ''DISABLED_BY_QUEUE'')])"
       and c = "KandinskyAPI ''k'' ''s'' None" and prompt = "''a cat''" and pipelineId = "''p-1''"
       and options = no_generate_options
       and response = "\<lparr> ok = True, status = 200, statusText = ''OK'',
            json = Inr (JObj [(''uuid'', JStr ''u-1''), (''pipeline_status'', JStr ''DISABLED_BY_QUEUE'')]) \<rparr>"
       and data = "JObj [(''uuid'', JStr ''u-1''), (''pipeline_status'', JStr ''DISABLED_BY_QUEUE'')]"
       and pipeline_status = "JStr ''DISABLED_BY_QUEUE''"]
  by (simp add: ok_json_def)

text \<open>
  C10. The test for including \<open>style\<close> and \<open>negativePrompt\<close> is the truthiness of the
  option. A falsy value (the empty string, \<open>0\<close>, \<open>null\<close>, \<open>false\<close>, \<open>NaN\<close>) leaves the
  field out, and the request is the one made with the option omitted; a truthy value
  puts the field in.
\<close>

theorem generate_falsy_absent:
  "(\<not> truthy (style options) \<longrightarrow>
      ''style'' \<notin> field_names (payload (generate_request c prompt pipelineId options))
    \<and> generate_request c prompt pipelineId options
        = generate_request c prompt pipelineId (options\<lparr> style := JUndefined \<rparr>))
 \<and> (\<not> truthy (negativePrompt options) \<longrightarrow>
      ''negativePromptDecoder'' \<notin> field_names (payload (generate_request c prompt pipelineId options))
    \<and> generate_request c prompt pipelineId options
        = generate_request c prompt pipelineId (options\<lparr> negativePrompt := JUndefined \<rparr>))
 \<and> (truthy (style options) \<longrightarrow>
      ''style'' \<in> field_names (payload (generate_request c prompt pipelineId options)))
 \<and> (truthy (negativePrompt options) \<longrightarrow>
      ''negativePromptDecoder'' \<in> field_names (payload (generate_request c prompt pipelineId options)))"
  by (simp add: field_names_payload
        generate_request_cong [OF generate_params_falsy_style]
        generate_request_cong [OF generate_params_falsy_negativePrompt])

theorem generate_falsy_absent_witness:
  "''style'' \<notin> field_names (payload (generate_request (KandinskyAPI ''k'' ''s'' None) ''a cat'' ''p-1''
       \<lparr> width = JUndefined, height = JUndefined, numImages = JUndefined,
         style = JStr '''', negativePrompt = JNum 0 \<rparr>))
 \<and> ''negativePromptDecoder'' \<notin> field_names (payload (generate_request (KandinskyAPI ''k'' ''s'' None) ''a cat'' ''p-1''
       \<lparr> width = JUndefined, height = JUndefined, numImages = JUndefined,
         style = JStr '''', negativePrompt = JNum 0 \<rparr>))
 \<and> generate_request (KandinskyAPI ''k'' ''s'' None) ''a cat'' ''p-1''
       \<lparr> width = JUndefined, height = JUndefined, numImages = JUndefined,
         style = JStr '''', negativePrompt = JNum 0 \<rparr>
   = generate_request (KandinskyAPI ''k'' ''s'' None) ''a cat'' ''p-1''
       \<lparr> width = JUndefined, height = JUndefined, numImages = JUndefined,
         style = JUndefined, negativePrompt = JNum 0 \<rparr>
 \<and> ''style'' \<in> field_names (payload (generate_request (KandinskyAPI ''k'' ''s'' None) ''a cat'' ''p-1''
       \<lparr> width = JUndefined, height = JUndefined, numImages = JUndefined,
         style = JStr ''ANIME'', negativePrompt = JNull \<rparr>))"
proof -
  let ?c = "KandinskyAPI ''k'' ''s'' None"
  let ?options = "\<lparr> width = JUndefined, height = JUndefined, numImages = JUndefined,
                    style = JStr '''', negativePrompt = JNum 0 \<rparr>"
  let ?styled = "\<lparr> width = JUndefined, height = JUndefined, numImages = JUndefined,
                   style = JStr ''ANIME'', negativePrompt = JNull \<rparr>"
  have falsy: "\<not> truthy (style ?options)" "\<not> truthy (negativePrompt ?options)"
    by simp_all
  have supplied: "truthy (style ?styled)"
    by simp
  have omitted: "?options\<lparr> style := JUndefined \<rparr>
      = \<lparr> width = JUndefined, height = JUndefined, numImages = JUndefined,
          style = JUndefined, negativePrompt = JNum 0 \<rparr>"
    by simp
  show ?thesis
    using generate_falsy_absent [of ?options ?c "''a cat''" "''p-1''"]
      generate_falsy_absent [of ?styled ?c "''a cat''" "''p-1''"]
      falsy supplied unfolding omitted by blast
qed

section \<open>Pipeline resolution\<close>

text \<open>
  C7. When the listing request succeeds and its body parses to an array with at least one
  entry, \<open>getPipeline\<close> returns the \<open>id\<close> property of the first entry, whatever entries
  follow. The first entry is one whose \<open>id\<close> can be read (anything but \<open>null\<close>); an
  entry without an \<open>id\<close> reads as \<open>undefined\<close>.
\<close>

theorem getPipeline_first_id:
  assumes "fetch (getPipeline_request c) = Resolves response"
    and "ok response"
    and "json response = Inr (JArr (e # es))"
    and "get e ''id'' = Inr v"
  shows "getPipeline c fetch = Inr v"
  using assms by (simp add: getPipeline_def getPipeline_try_def index_of_key_0)

theorem getPipeline_first_id_witness:
  "getPipeline (KandinskyAPI ''k'' ''s'' None)
     (\<lambda>r. Resolves \<lparr> ok = True, status = 200, statusText = ''OK'',
                      json = Inr (JArr [JObj [(''id'', JStr ''p-1''), (''name'', JStr ''Kandinsky'')],
                                        JObj [(''id'', JStr ''p-2'')], JNull]) \<rparr>)
   = Inr (JStr ''p-1'')"
  by (rule getPipeline_first_id
        [where e = "JObj [(''id'', JStr ''p-1''), (''name'', JStr ''Kandinsky'')]"
           and es = "[JObj [(''id'', JStr ''p-2'')], JNull]"
           and response = "\<lparr> ok = True, status = 200, statusText = ''OK'',
                      json = Inr (JArr [JObj [(''id'', JStr ''p-1''), (''name'', JStr ''Kandinsky'')],
                                        JObj [(''id'', JStr ''p-2'')], JNull]) \<rparr>"])
     simp_all

text \<open>
  C8. When the body of the listing response parses to the empty array, \<open>getPipeline\<close>
  returns no identifier: it throws an error whose message starts with the resolution
  prefix, and for a successful response the message names the empty listing.
\<close>

theorem getPipeline_empty:
  assumes "fetch (getPipeline_request c) = Resolves response"
    and "json response = Inr (JArr [])"
  shows "(\<exists>m. getPipeline c fetch = Inl (Error (''Failed to get pipeline ID: '' @ m)))
       \<and> (ok response \<longrightarrow>
            getPipeline c fetch = Inl (Error ''Failed to get pipeline ID: No pipelines available''))"
  using assms by (simp add: getPipeline_def getPipeline_try_def)

theorem getPipeline_empty_witness:
  "getPipeline (KandinskyAPI ''k'' ''s'' None)
     (\<lambda>r. Resolves \<lparr> ok = True, status = 200, statusText = ''OK'', json = Inr (JArr []) \<rparr>)
   = Inl (Error ''Failed to get pipeline ID: No pipelines available'')"
  using getPipeline_empty [of "\<lambda>r. Resolves \<lparr> ok = True, status = 200, statusText = ''OK'', json = Inr (JArr []) \<rparr>"
      "KandinskyAPI ''k'' ''s'' None" "\<lparr> ok = True, status = 200, statusText = ''OK'', json = Inr (JArr []) \<rparr>"]
  by simp

section \<open>Saving\<close>

lemma if_not_swap: "(if \<not> c then a else b) = (if c then b else a)"
  by simp

lemma foldl_saveImages_each:
  "foldl (saveImages_each p) acc items
     = (fst acc @ map (\<lambda>item. p @ ''_'' @ digits (fst item) @ ''.png'') items,
        snd acc @ map (\<lambda>item.
                     \<lparr> href = (if \<not> startsWith (snd item) ''data:image''
                                then ''data:image/png;base64,'' @ snd item else snd item),
                       download = p @ ''_'' @ digits (fst item) @ ''.png'' \<rparr>) items)"
proof (induction items arbitrary: acc)
  case Nil
  then show ?case by simp
next
  case (Cons item items)
  show ?case
    unfolding foldl_Cons Cons.IH
    by (simp add: saveImages_each_def Let_def)
qed

text \<open>
  C9, as the code has it. \<open>saveImages\<close> returns the filenames \<open>prefix_i.png\<close>, \<open>i\<close> the
  zero-based position, in the order of the inputs, with \<open>kandinsky\<close> the default prefix;
  each link is downloaded under its filename. A payload that starts with \<open>data:image\<close>
  is the link's address unchanged; any other payload has \<open>data:image/png;base64,\<close>
  prepended.
\<close>

theorem saveImages_result:
  "fst (saveImages base64Images options)
     = map (\<lambda>i. (case prefix options of None \<Rightarrow> ''kandinsky'' | Some p \<Rightarrow> p)
                  @ ''_'' @ digits i @ ''.png'') [0..<length base64Images]
 \<and> map download (snd (saveImages base64Images options)) = fst (saveImages base64Images options)
 \<and> map href (snd (saveImages base64Images options))
     = map (\<lambda>imgData. if startsWith imgData ''data:image'' then imgData
                       else ''data:image/png;base64,'' @ imgData) base64Images"
proof -
  let ?p = "case prefix options of None \<Rightarrow> ''kandinsky'' | Some p \<Rightarrow> p"
  let ?name = "\<lambda>i. ?p @ ''_'' @ digits i @ ''.png''"
  let ?data = "\<lambda>imgData. if startsWith imgData ''data:image'' then imgData
                          else ''data:image/png;base64,'' @ imgData"
  let ?items = "enumerate 0 base64Images"
  have result: "saveImages base64Images options
       = (map (\<lambda>item. ?name (fst item)) ?items,
          map (\<lambda>item. \<lparr> href = ?data (snd item), download = ?name (fst item) \<rparr>) ?items)"
    by (simp add: saveImages_def foldl_saveImages_each Let_def if_not_swap)
  have names: "map (\<lambda>item. ?name (fst item)) ?items = map ?name (map fst ?items)"
    by (simp only: map_map comp_def)
  have hrefs: "map (\<lambda>item. ?data (snd item)) ?items = map ?data (map snd ?items)"
    by (simp only: map_map comp_def)
  have 1: "fst (saveImages base64Images options) = map ?name [0..<length base64Images]"
    unfolding result fst_conv names by simp
  have 2: "map download (snd (saveImages base64Images options))
             = fst (saveImages base64Images options)"
    unfolding result by (simp add: comp_def)
  have "map href (snd (saveImages base64Images options)) = map (\<lambda>item. ?data (snd item)) ?items"
    unfolding result by (simp add: comp_def)
  then have 3: "map href (snd (saveImages base64Images options)) = map ?data base64Images"
    unfolding hrefs by simp
  from 1 2 3 show ?thesis by blast
qed

text \<open>The two payloads of the specification's example.\<close>

theorem saveImages_result_witness:
  "fst (saveImages [''iVBORw0KG'', ''data:image/png;base64,AAA''] \<lparr> prefix = None \<rparr>)
     = [''kandinsky_0.png'', ''kandinsky_1.png'']
 \<and> map href (snd (saveImages [''iVBORw0KG'', ''data:image/png;base64,AAA''] \<lparr> prefix = None \<rparr>))
     = [''data:image/png;base64,iVBORw0KG'', ''data:image/png;base64,AAA'']"
  using saveImages_result [of "[''iVBORw0KG'', ''data:image/png;base64,AAA'']" "\<lparr> prefix = None \<rparr>"]
  by (simp add: startsWith_def upt_rec digits.simps)

text \<open>
  C9 as stated fails: a payload that does not start with the marker that is prepended,
  but with \<open>data:image\<close> and another media type, is left unchanged.
\<close>

theorem saveImages_other_media_type:
  "\<not> startsWith ''data:image/jpeg;base64,BBB'' ''data:image/png;base64,''
 \<and> map href (snd (saveImages [''data:image/jpeg;base64,BBB''] \<lparr> prefix = None \<rparr>))
     = [''data:image/jpeg;base64,BBB'']
 \<and> map href (snd (saveImages [''data:image/jpeg;base64,BBB''] \<lparr> prefix = None \<rparr>))
     \<noteq> [''data:image/png;base64,'' @ ''data:image/jpeg;base64,BBB'']"
  by (simp add: saveImages_def saveImages_each_def startsWith_def enumerate_eq_zip upt_rec Let_def)

end
